theory Spec2Isabelle
  imports Complex_Main "HOL-Library.AList" "HOL-Library.Char_ord" "HOL-Library.List_Lexorder"
    "HOL-Library.Log_Nat"
begin

section \<open>Values, dictionaries and validation results\<close>

text \<open>
  A column value fetched from the database is a string or SQL NULL, which the driver
  hands over as Python's \<^verbatim>\<open>None\<close>. Python's \<^verbatim>\<open>==\<close> on such values is
  equality of the datatype: two strings are equal when their characters are, \<^verbatim>\<open>None\<close>
  equals only \<^verbatim>\<open>None\<close>.
\<close>

datatype pyval = PyNone | PyStr string

text \<open>
  A Python \<^verbatim>\<open>dict\<close> is an association list in insertion order: assigning to a key
  that is present replaces its value in place, assigning to a new key appends it
  (\<^const>\<open>AList.update\<close>). Keys are strings, compared as Python compares them, character
  by character (the lexicographic order on \<^typ>\<open>string\<close>).
\<close>

type_synonym 'v dict = "(string \<times> 'v) list"

definition dict_get :: "'v dict \<Rightarrow> string \<Rightarrow> 'v \<Rightarrow> 'v" where
  "dict_get d k dflt = (case map_of d k of Some v \<Rightarrow> v | None \<Rightarrow> dflt)"

definition dict_keys :: "'v dict \<Rightarrow> string list" where
  "dict_keys d = map fst d"

text \<open>
  A row of \<^verbatim>\<open>SELECT name, value, isdefault FROM v$parameter\<close> and the comprehension
  \<^verbatim>\<open>{p[0]: p[1] for p in rows}\<close>, in which a later row with the same name wins.
\<close>

type_synonym param_row = "string \<times> pyval \<times> pyval"

definition dict_of_rows :: "param_row list \<Rightarrow> pyval dict" where
  "dict_of_rows rows = foldl (\<lambda>d (p0, p1, p2). AList.update p0 p1 d) [] rows"

text \<open>
  \<^verbatim>\<open>sorted(set(a.keys()) | set(b.keys()))\<close>: the keys of either dictionary, each once,
  in ascending order.
\<close>

definition sorted_key_union :: "'v dict \<Rightarrow> 'w dict \<Rightarrow> string list" where
  "sorted_key_union a b = sort (remdups (dict_keys a @ dict_keys b))"

text \<open>
  One entry of \<^verbatim>\<open>validation_results\<close>: a dictionary with the keys \<^verbatim>\<open>check\<close>,
  \<^verbatim>\<open>status\<close>, \<^verbatim>\<open>source_value\<close>, \<^verbatim>\<open>target_value\<close> and, for the plug
  compatibility check, \<^verbatim>\<open>violations\<close> (rows of strings). The status is one of the
  strings \<^verbatim>\<open>PASS\<close>, \<^verbatim>\<open>FAILED\<close> and \<^verbatim>\<open>SKIPPED\<close>.
\<close>

record validation_result =
  check :: string
  status :: string
  source_value :: string
  target_value :: string
  violations :: "pyval list list option"

section \<open>Parameter comparison\<close>

text \<open>
  Section 3 of the precheck report (\<^verbatim>\<open>generate_precheck_report\<close>), the CDB parameters:
  \<^verbatim>\<open>
  all_cdb_params = sorted(set(source_cdb_params.keys()) | set(target_cdb_params.keys()))
  for param in all_cdb_params:
      source_val = source_cdb_params.get(param, 'N/A')
      target_val = target_cdb_params.get(param, 'N/A')
      if source_val == target_val: status = 'SAME'
      else:                        status = 'DIFF'
  \<close>
  A table row is the parameter, the two displayed values and the status.
\<close>

type_synonym delta_row = "string \<times> pyval \<times> pyval \<times> string"

definition row_param :: "delta_row \<Rightarrow> string" where
  "row_param r = fst r"

definition row_status :: "delta_row \<Rightarrow> string" where
  "row_status r = snd (snd (snd r))"



text \<open>
  Section 4 of the precheck report, the PDB parameters. The target PDB counts as existing
  when it has parameters:
  \<^verbatim>\<open>
  target_pdb_exists = len(target_pdb_params) > 0
  for param in all_pdb_params:
      source_val = source_pdb_params.get(param, 'Not Set')
      target_val = target_pdb_params.get(param,
                       'Not Set' if target_pdb_exists else 'PDB not created yet')
      if source_val == target_val and target_pdb_exists: status = 'SAME'
      elif not target_pdb_exists:                        status = 'Pending'
      else:                                              status = 'DIFF'
  \<close>
  The loop body is \<open>pdb_param_row\<close>, with the flag it reads as an argument.
\<close>

definition pdb_param_row :: "bool \<Rightarrow> pyval dict \<Rightarrow> pyval dict \<Rightarrow> string \<Rightarrow> delta_row" where
  "pdb_param_row target_pdb_exists source_pdb_params target_pdb_params param =
     (let source_val = dict_get source_pdb_params param (PyStr ''Not Set'');
          target_val = dict_get target_pdb_params param
                         (PyStr (if target_pdb_exists then ''Not Set'' else ''PDB not created yet''));
          status = (if source_val = target_val \<and> target_pdb_exists then ''SAME''
                    else if \<not> target_pdb_exists then ''Pending''
                    else ''DIFF'')
      in (param, source_val, target_val, status))"

definition pdb_param_rows :: "pyval dict \<Rightarrow> pyval dict \<Rightarrow> delta_row list" where
  "pdb_param_rows source_pdb_params target_pdb_params =
     (let all_pdb_params = sorted_key_union source_pdb_params target_pdb_params;
          target_pdb_exists = (length target_pdb_params > 0)
      in map (pdb_param_row target_pdb_exists source_pdb_params target_pdb_params) all_pdb_params)"

text \<open>
  The parameter comparison of \<^verbatim>\<open>perform_pdb_postcheck\<close> in \<^verbatim>\<open>pdb_clone.py\<close>:
  \<^verbatim>\<open>
  all_keys = set(source_params.keys()) | set(target_params.keys())
  param_differences = []
  for key in sorted(all_keys):
      source_val = source_params.get(key, 'N/A')
      target_val = target_params.get(key, 'N/A')
      if source_val != target_val:
          param_differences.append((key, source_val, target_val))
  params_match = len(param_differences) == 0
  \<close>
  followed by the validation result \<^verbatim>\<open>Oracle DB Parameters Match\<close>.
\<close>

definition param_differences :: "pyval dict \<Rightarrow> pyval dict \<Rightarrow> (string \<times> pyval \<times> pyval) list" where
  "param_differences source_params target_params =
     foldl (\<lambda>acc key.
              let source_val = dict_get source_params key (PyStr ''N/A'');
                  target_val = dict_get target_params key (PyStr ''N/A'')
              in if source_val \<noteq> target_val then acc @ [(key, source_val, target_val)] else acc)
           [] (sorted_key_union source_params target_params)"

definition params_match :: "pyval dict \<Rightarrow> pyval dict \<Rightarrow> bool" where
  "params_match source_params target_params =
     (length (param_differences source_params target_params) = 0)"

text \<open>
  The counts in the display strings are rendered by \<open>str_of_nat\<close>, Python's \<^verbatim>\<open>str\<close> on a
  non-negative integer.
\<close>

fun digits_of_nat :: "nat \<Rightarrow> string" where
  "digits_of_nat n =
     (if n < 10 then [''0123456789'' ! n]
      else digits_of_nat (n div 10) @ [''0123456789'' ! (n mod 10)])"

declare digits_of_nat.simps [simp del]

definition str_of_nat :: "nat \<Rightarrow> string" where
  "str_of_nat n = digits_of_nat n"

definition params_match_result :: "pyval dict \<Rightarrow> pyval dict \<Rightarrow> validation_result" where
  "params_match_result source_params target_params =
     \<lparr>check = ''Oracle DB Parameters Match'',
      status = (if params_match source_params target_params then ''PASS'' else ''FAILED''),
      source_value = str_of_nat (length source_params) @ '' parameters'',
      target_value = str_of_nat (length target_params) @ '' parameters (''
                       @ str_of_nat (length (param_differences source_params target_params))
                       @ '' differences)'',
      violations = None\<rparr>"

section \<open>Overall status of the precheck report\<close>

text \<open>
  \<^verbatim>\<open>generate_precheck_report\<close> in \<^verbatim>\<open>utils/report_generator.py\<close>:
  \<^verbatim>\<open>
  overall_pass = all(r['status'] == 'PASS' for r in validation_results
                     if r['status'] != 'SKIPPED')
  overall_status = 'PASS' if overall_pass else 'FAIL'
  \<close>
\<close>

definition overall_pass :: "validation_result list \<Rightarrow> bool" where
  "overall_pass validation_results =
     list_all (\<lambda>r. status r = ''PASS'') (filter (\<lambda>r. status r \<noteq> ''SKIPPED'') validation_results)"

definition overall_status :: "validation_result list \<Rightarrow> string" where
  "overall_status validation_results =
     (if overall_pass validation_results then ''PASS'' else ''FAIL'')"

section \<open>The procedure compatibility resolver\<close>

text \<open>
  An exception is its class name, the text \<^verbatim>\<open>str(e)\<close> gives, and \<^verbatim>\<open>__context__\<close>: the
  exception that was being handled when it was raised. Python sets the context of every
  exception raised inside an \<^verbatim>\<open>except\<close> block.
\<close>

datatype exn = Exn (kind: string) (message: string) (during: "exn option")

definition raised_while_handling :: "exn \<Rightarrow> exn \<Rightarrow> exn" where
  "raised_while_handling handled e = Exn (kind e) (message e) (Some handled)"

text \<open>
  The four PL/SQL blocks of \<^verbatim>\<open>perform_pdb_precheck\<close> in \<^verbatim>\<open>pdb_clone.py\<close>, character for
  character. The text of Method 2 is the text of Method 1.
\<close>

definition plsql_block_method1 :: string where
  "plsql_block_method1 =
     ''\<newline>'' @
     ''            DECLARE\<newline>'' @
     ''                v_pdb_name VARCHAR2(128) := :pdb_name;\<newline>'' @
     ''            BEGIN\<newline>'' @
     ''                DBMS_PDB.DESCRIBE(\<newline>'' @
     ''                    pdb_descr_xml => :xml_output,\<newline>'' @
     ''                    pdb_name => v_pdb_name\<newline>'' @
     ''                );\<newline>'' @
     ''            END;\<newline>'' @
     ''        ''"

definition plsql_block_method2 :: string where
  "plsql_block_method2 =
     ''\<newline>'' @
     ''            DECLARE\<newline>'' @
     ''                v_pdb_name VARCHAR2(128) := :pdb_name;\<newline>'' @
     ''            BEGIN\<newline>'' @
     ''                DBMS_PDB.DESCRIBE(\<newline>'' @
     ''                    pdb_descr_xml => :xml_output,\<newline>'' @
     ''                    pdb_name => v_pdb_name\<newline>'' @
     ''                );\<newline>'' @
     ''            END;\<newline>'' @
     ''        ''"

definition plsql_block_method3 :: string where
  "plsql_block_method3 =
     ''\<newline>'' @
     ''            DECLARE\<newline>'' @
     ''                v_pdb_name VARCHAR2(128) := :pdb_name;\<newline>'' @
     ''            BEGIN\<newline>'' @
     ''                DBMS_PDB.DESCRIBE(:xml_output, v_pdb_name);\<newline>'' @
     ''            END;\<newline>'' @
     ''        ''"

definition plsql_block_method4 :: string where
  "plsql_block_method4 =
     ''\<newline>'' @
     ''            DECLARE\<newline>'' @
     ''                v_pdb_name VARCHAR2(128) := :pdb_name;\<newline>'' @
     ''                v_filename VARCHAR2(100) := 'pdb_describe_' || TO_CHAR(SYSDATE, 'YYYYMMDDHH24MISS') || '.xml';\<newline>'' @
     ''                v_dir VARCHAR2(30) := 'DATA_PUMP_DIR';\<newline>'' @
     ''                v_file_handle UTL_FILE.FILE_TYPE;\<newline>'' @
     ''                v_clob CLOB;\<newline>'' @
     ''                v_line VARCHAR2(32767);\<newline>'' @
     ''            BEGIN\<newline>'' @
     ''                -- Step 1: Generate XML file using DBMS_PDB.DESCRIBE\<newline>'' @
     ''                DBMS_PDB.DESCRIBE(\<newline>'' @
     ''                    pdb_descr_file => v_filename,\<newline>'' @
     ''                    pdb_name => v_pdb_name\<newline>'' @
     ''                );\<newline>'' @
     ''\<newline>'' @
     ''                -- Step 2: Read the file into a CLOB\<newline>'' @
     ''                DBMS_LOB.CREATETEMPORARY(v_clob, TRUE);\<newline>'' @
     ''                v_file_handle := UTL_FILE.FOPEN(v_dir, v_filename, 'R', 32767);\<newline>'' @
     ''\<newline>'' @
     ''                BEGIN\<newline>'' @
     ''                    LOOP\<newline>'' @
     ''                        UTL_FILE.GET_LINE(v_file_handle, v_line);\<newline>'' @
     ''                        DBMS_LOB.WRITEAPPEND(v_clob, LENGTH(v_line) + 1, v_line || CHR(10));\<newline>'' @
     ''                    END LOOP;\<newline>'' @
     ''                EXCEPTION\<newline>'' @
     ''                    WHEN NO_DATA_FOUND THEN\<newline>'' @
     ''                        NULL;  -- End of file reached\<newline>'' @
     ''                END;\<newline>'' @
     ''\<newline>'' @
     ''                UTL_FILE.FCLOSE(v_file_handle);\<newline>'' @
     ''\<newline>'' @
     ''                -- Step 3: Delete the temporary file\<newline>'' @
     ''                UTL_FILE.FREMOVE(v_dir, v_filename);\<newline>'' @
     ''\<newline>'' @
     ''                -- Step 4: Return the CLOB\<newline>'' @
     ''                :xml_output := v_clob;\<newline>'' @
     ''            END;\<newline>'' @
     ''        ''"

text \<open>
  The connection parameters the messages quote.
\<close>

record params =
  source_scan :: string
  source_port :: string
  source_cdb :: string
  source_pdb :: string
  target_cdb :: string

text \<open>
  The state of the resolver when its \<^verbatim>\<open>try\<close> statement is left: the exception that
  propagates (if any), the variables \<^verbatim>\<open>method_succeeded\<close> and \<^verbatim>\<open>xml_var\<close> (the value
  \<^verbatim>\<open>xml_var.getvalue()\<close> would give), the database, the statements passed to
  \<^verbatim>\<open>source_cursor.execute\<close> in order, and the messages given to \<^verbatim>\<open>emit_progress\<close>.

  The database is an external collaborator: \<^verbatim>\<open>source_cursor.execute(block,
  xml_output=xml_var, pdb_name=source_pdb)\<close> is a function of the database state, the
  statement and the PDB name, which raises or sets the output variable, and changes the
  database state.
\<close>

record 'w run =
  raised :: "exn option"
  method_succeeded :: bool
  xml_var :: "string option"
  world :: 'w
  executed :: "string list"
  progress :: "string list"

type_synonym 'w cursor_execute = "'w \<Rightarrow> string \<Rightarrow> string \<Rightarrow> (exn + string option) \<times> 'w"

text \<open>
  The messages emitted when the fourth method has failed too.
\<close>

definition all_methods_failed_notice :: "params \<Rightarrow> string list" where
  "all_methods_failed_notice p =
     [[],
      ''NOTICE: All 4 DBMS_PDB.DESCRIBE methods failed'',
      ''NOTICE: Your Oracle version appears to only support file-based approach'',
      ''NOTICE: File-based approach requires server filesystem access'',
      ''NOTICE: Skipping DBMS_PDB plug compatibility check'',
      [],
      ''RECOMMENDATION: Run the compatibility check manually using SQL*Plus:'',
      ''  1. Connect to source PDB: sqlplus user/pass@'' @ source_scan p @ '':'' @ source_port p
         @ ''/'' @ source_pdb p,
      ''  2. Run: EXEC DBMS_PDB.DESCRIBE(pdb_descr_file => 'pdb_desc.xml', pdb_name => '' @ [CHR 0x27]
         @ source_pdb p @ [CHR 0x27] @ '');'',
      ''  3. Copy pdb_desc.xml from DATA_PUMP_DIR on source to target'',
      ''  4. Connect to target CDB: sqlplus user/pass@'' @ source_scan p @ '':'' @ source_port p
         @ ''/'' @ target_cdb p,
      ''  5. Run: SELECT DBMS_PDB.CHECK_PLUG_COMPATIBILITY(pdb_descr_file => 'pdb_desc.xml') FROM dual;'',
      []]"

text \<open>
  The nested \<^verbatim>\<open>try\<close> statements of the resolver:
  \<^verbatim>\<open>
  method_succeeded = False
  try:
      source_cursor.execute(plsql_block_method1, xml_output=xml_var, pdb_name=source_pdb)
      method_succeeded = True
  except Exception as e1:
      try:
          xml_var = source_cursor.var(oracledb.DB_TYPE_CLOB)
          source_cursor.execute(plsql_block_method2, ...)
          method_succeeded = True
      except Exception as e2:
          try: ... plsql_block_method3 ...
          except Exception as e3:
              try: ... plsql_block_method4 ...
              except Exception as e4:
                  ...
                  raise Exception("ALL_METHODS_FAILED_FILE_BASED_ONLY")
  \<close>
\<close>

definition try_describe_methods :: "'w cursor_execute \<Rightarrow> params \<Rightarrow> 'w \<Rightarrow> 'w run" where
  "try_describe_methods execute p w0 =
     (let log0 = [''DEBUG: Attempting Method 1 - CLOB with PDB name from CDB (Oracle 19c+)...'',
                  ''DEBUG: PL/SQL Block:\<newline>'' @ plsql_block_method1]
      in case execute w0 plsql_block_method1 (source_pdb p) of
        (Inr xml, w1) \<Rightarrow>
          \<lparr>raised = None, method_succeeded = True, xml_var = xml, world = w1,
           executed = [plsql_block_method1],
           progress = log0 @ [''DEBUG: Method 1 succeeded!'']\<rparr>
      | (Inl e1, w1) \<Rightarrow>
     (let log1 = log0 @
                 [''DEBUG: Method 1 failed: '' @ message e1,
                  ''DEBUG: Attempting Method 2 - CLOB positional with PDB name (Oracle 12c)...'',
                  ''DEBUG: PL/SQL Block:\<newline>'' @ plsql_block_method2]
      in case execute w1 plsql_block_method2 (source_pdb p) of
        (Inr xml, w2) \<Rightarrow>
          \<lparr>raised = None, method_succeeded = True, xml_var = xml, world = w2,
           executed = [plsql_block_method1, plsql_block_method2],
           progress = log1 @ [''DEBUG: Method 2 succeeded!'']\<rparr>
      | (Inl e2', w2) \<Rightarrow>
     (let e2 = raised_while_handling e1 e2';
          log2 = log1 @
                 [''DEBUG: Method 2 also failed: '' @ message e2,
                  ''DEBUG: Attempting Method 3 - Positional CLOB and PDB name (Oracle 12c alt)...'',
                  ''DEBUG: PL/SQL Block:\<newline>'' @ plsql_block_method3]
      in case execute w2 plsql_block_method3 (source_pdb p) of
        (Inr xml, w3) \<Rightarrow>
          \<lparr>raised = None, method_succeeded = True, xml_var = xml, world = w3,
           executed = [plsql_block_method1, plsql_block_method2, plsql_block_method3],
           progress = log2 @ [''DEBUG: Method 3 succeeded!'']\<rparr>
      | (Inl e3', w3) \<Rightarrow>
     (let e3 = raised_while_handling e2 e3';
          log3 = log2 @
                 [''DEBUG: Method 3 also failed: '' @ message e3,
                  ''DEBUG: Attempting Method 4 - File-based with DBMS_LOB (Oracle 12c)...'',
                  ''DEBUG: This method writes to DATA_PUMP_DIR and reads back'']
      in case execute w3 plsql_block_method4 (source_pdb p) of
        (Inr xml, w4) \<Rightarrow>
          \<lparr>raised = None, method_succeeded = True, xml_var = xml, world = w4,
           executed = [plsql_block_method1, plsql_block_method2, plsql_block_method3,
                       plsql_block_method4],
           progress = log3 @ [''DEBUG: Method 4 succeeded!'']\<rparr>
      | (Inl e4', w4) \<Rightarrow>
     (let e4 = raised_while_handling e3 e4';
          log4 = log3 @ [''DEBUG: Method 4 also failed: '' @ message e4]
                      @ all_methods_failed_notice p
      in \<lparr>raised = Some (raised_while_handling e4
                           (Exn ''Exception'' ''ALL_METHODS_FAILED_FILE_BASED_ONLY'' None)),
          method_succeeded = False, xml_var = None, world = w4,
          executed = [plsql_block_method1, plsql_block_method2, plsql_block_method3,
                      plsql_block_method4],
          progress = log4\<rparr>)))))"

text \<open>
  The check that follows the nested statements, and the first message of the success
  path:
  \<^verbatim>\<open>
  if not method_succeeded:
      raise Exception("All DBMS_PDB.DESCRIBE methods failed")
  emit_progress(f"DEBUG: DBMS_PDB.DESCRIBE executed successfully")
  \<close>
\<close>

definition describe :: "'w cursor_execute \<Rightarrow> params \<Rightarrow> 'w \<Rightarrow> 'w run" where
  "describe execute p w0 =
     (let r = try_describe_methods execute p w0
      in case raised r of
           Some e \<Rightarrow> r
         | None \<Rightarrow>
             if \<not> method_succeeded r
             then r\<lparr>raised := Some (Exn ''Exception'' ''All DBMS_PDB.DESCRIBE methods failed'' None)\<rparr>
             else r\<lparr>progress := progress r @ [''DEBUG: DBMS_PDB.DESCRIBE executed successfully'']\<rparr>)"

section \<open>Check 10 of the precheck and the steps after it\<close>

text \<open>
  \<^verbatim>\<open>str.strip()\<close> removes leading and trailing whitespace. Strings are sequences of
  code points below 256; these are the ones Python counts as whitespace.
\<close>

definition py_isspace :: "char \<Rightarrow> bool" where
  "py_isspace c = (of_char c \<in> {9, 10, 11, 12, 13, 28, 29, 30, 31, 32, 133, 160 :: nat})"

definition py_lstrip :: "string \<Rightarrow> string" where
  "py_lstrip s = dropWhile py_isspace s"

definition py_strip :: "string \<Rightarrow> string" where
  "py_strip s = rev (dropWhile py_isspace (rev (dropWhile py_isspace s)))"

text \<open>
  \<^verbatim>\<open>str(v)\<close> of a fetched value, as an f-string renders it.
\<close>

definition py_str :: "pyval \<Rightarrow> string" where
  "py_str v = (case v of PyNone \<Rightarrow> ''None'' | PyStr s \<Rightarrow> s)"

text \<open>
  The rest of the environment of check 10 and of the data gathering after it, each call a
  function of the database state that raises or returns:
  \<^item> \<open>inspect_signature\<close>: the queries on \<^verbatim>\<open>sys_context\<close> and \<^verbatim>\<open>all_arguments\<close> and
    the analysis of the overloads, giving the messages emitted and the flags
    \<^verbatim>\<open>has_clob_overload\<close> and \<^verbatim>\<open>has_file_overload\<close>;
  \<^item> \<open>now\<close>: \<^verbatim>\<open>datetime.now().strftime("%Y%m%d_%H%M%S")\<close>;
  \<^item> \<open>write_file\<close>: writing the XML to a local file;
  \<^item> \<open>check_plug_compatibility\<close>: executing \<^verbatim>\<open>check_compat_block\<close> on the target and
    reading \<^verbatim>\<open>result_var\<close>;
  \<^item> \<open>fetch_violations\<close>: the query on \<^verbatim>\<open>pdb_plug_in_violations\<close>;
  \<^item> \<open>format_exc\<close>: the lines of \<^verbatim>\<open>traceback.format_exc()\<close>;
  \<^item> \<open>fetch_cdb_parameters\<close> (source when the flag is true): the query on
    \<^verbatim>\<open>v$parameter\<close> through the CDB cursor;
  \<^item> \<open>fetch_pdb_parameters\<close>: connecting to the PDB, the query and closing;
  \<^item> \<open>close_connections\<close>: closing the cursors and connections.
\<close>

record 'w env =
  cursor_execute :: "'w cursor_execute"
  inspect_signature :: "'w \<Rightarrow> (string list \<times> (exn + bool \<times> bool)) \<times> 'w"
  now :: "'w \<Rightarrow> string"
  write_file :: "'w \<Rightarrow> string \<Rightarrow> string \<Rightarrow> exn option \<times> 'w"
  check_plug_compatibility :: "'w \<Rightarrow> string option \<Rightarrow> (exn + pyval) \<times> 'w"
  fetch_violations :: "'w \<Rightarrow> (exn + pyval list list) \<times> 'w"
  format_exc :: "exn \<Rightarrow> string list"
  fetch_cdb_parameters :: "'w \<Rightarrow> bool \<Rightarrow> (exn + param_row list) \<times> 'w"
  fetch_pdb_parameters :: "'w \<Rightarrow> bool \<Rightarrow> (exn + param_row list) \<times> 'w"
  close_connections :: "'w \<Rightarrow> exn option \<times> 'w"

text \<open>
  The variables of \<^verbatim>\<open>perform_pdb_precheck\<close> that the steps from check 10 on read or
  write: \<^verbatim>\<open>validation_results\<close>, \<^verbatim>\<open>target_data['pdb_mode']\<close>, the four parameter
  lists of \<^verbatim>\<open>source_data\<close> and \<^verbatim>\<open>target_data\<close>, the database and the messages emitted.
  A validation result holds its values as the report displays them.
\<close>

record 'w precheck =
  validation_results :: "validation_result list"
  target_pdb_mode :: pyval
  source_cdb_parameters :: "param_row list"
  target_cdb_parameters :: "param_row list"
  source_pdb_parameters :: "param_row list"
  target_pdb_parameters :: "param_row list"
  db :: 'w
  emitted :: "string list"

text \<open>
  The body of the \<^verbatim>\<open>try\<close> statement of check 10 (DBMS_PDB.CHECK_PLUG_COMPATIBILITY),
  in three parts: the inspection of the signature and the resolver, then \<open>export_xml\<close>
  (the XML written to a local file), then \<open>check_on_target\<close> (the compatibility check
  on the target, the violations and the validation result). It is left at the first
  exception.
\<close>

record 'w body_exit =
  body_raised :: "exn option"
  body_results :: "validation_result list"
  body_db :: 'w
  body_emitted :: "string list"

definition export_xml :: "'w env \<Rightarrow> params \<Rightarrow> string option \<Rightarrow> 'w \<Rightarrow> (exn + string list) \<times> 'w" where
  "export_xml env p xml_clob w =
     (let timestamp = now env w;
          xml_filename = source_cdb p @ ''_'' @ source_pdb p @ ''_pdb_describe_'' @ timestamp @ ''.xml''
      in case xml_clob of
           Some xml_content \<Rightarrow>
             (case write_file env w xml_filename xml_content of
                (Some e, w') \<Rightarrow> (Inl e, w')
              | (None, w') \<Rightarrow>
                  (Inr [''DEBUG: XML exported to file: '' @ xml_filename,
                        ''DEBUG: XML length = '' @ str_of_nat (length xml_content) @ '' characters''],
                   w'))
         | None \<Rightarrow> (Inr [''DEBUG: WARNING - XML CLOB is empty/None!''], w))"

definition check_on_target :: "'w env \<Rightarrow> validation_result list \<Rightarrow> string option \<Rightarrow> 'w \<Rightarrow> string list \<Rightarrow> 'w body_exit" where
  "check_on_target env results xml_clob w log0 =
     (let log1 = log0 @
                 [''DEBUG: DBMS_PDB.DESCRIBE completed from CDB context'',
                  ''DEBUG: Running DBMS_PDB.CHECK_PLUG_COMPATIBILITY on target CDB...'',
                  ''DEBUG: Executing CHECK_PLUG_COMPATIBILITY...'']
      in case check_plug_compatibility env w xml_clob of
        (Inl e, w1) \<Rightarrow>
          \<lparr>body_raised = Some e, body_results = results, body_db = w1, body_emitted = log1\<rparr>
      | (Inr compatibility_result, w1) \<Rightarrow>
     (let log2 = log1 @ [''DEBUG: Compatibility check result = '' @ py_str compatibility_result]
      in case (if compatibility_result = PyStr ''FALSE'' then fetch_violations env w1
               else (Inr [], w1)) of
        (Inl e, w2) \<Rightarrow>
          \<lparr>body_raised = Some e, body_results = results, body_db = w2, body_emitted = log2\<rparr>
      | (Inr violation_rows, w2) \<Rightarrow>
          \<lparr>body_raised = None,
           body_results = results @
             [\<lparr>check = ''DBMS_PDB Plug Compatibility'',
               status = (if compatibility_result = PyStr ''TRUE'' then ''PASS'' else ''FAILED''),
               source_value = ''XML generated (CLOB)'',
               target_value = py_str compatibility_result,
               violations = Some violation_rows\<rparr>],
           body_db = w2,
           body_emitted = log2 @ [''DEBUG: Compatibility check completed successfully'']\<rparr>))"

definition plug_compatibility_body :: "'w env \<Rightarrow> params \<Rightarrow> validation_result list \<Rightarrow> 'w \<Rightarrow> 'w body_exit" where
  "plug_compatibility_body env p results w0 =
     (let log0 = [''DEBUG: Using CDB connection for DBMS_PDB.DESCRIBE'',
                  ''DEBUG: Source CDB DSN = '' @ source_scan p @ '':'' @ source_port p @ ''/'' @ source_cdb p]
      in case inspect_signature env w0 of
        ((msgs, Inl e), w1) \<Rightarrow>
          \<lparr>body_raised = Some e, body_results = results, body_db = w1, body_emitted = log0 @ msgs\<rparr>
      | ((msgs, Inr (has_clob_overload, has_file_overload)), w1) \<Rightarrow>
     (let log1 = log0 @ msgs @
                 (if has_file_overload \<and> \<not> has_clob_overload
                  then [[], ''INFO: all_arguments shows file-based signature'',
                        ''INFO: However, Oracle 19c+ typically supports CLOB overload'',
                        ''INFO: Attempting CLOB-based methods first...'', []]
                  else []) @
                 [''DEBUG: Created CLOB variable for XML output''];
          r = describe (cursor_execute env) p w1;
          log2 = log1 @ progress r
      in case raised r of
        Some e \<Rightarrow>
          \<lparr>body_raised = Some e, body_results = results, body_db = world r, body_emitted = log2\<rparr>
      | None \<Rightarrow>
     (let xml_clob = xml_var r
      in case export_xml env p xml_clob (world r) of
        (Inl e, w2) \<Rightarrow>
          \<lparr>body_raised = Some e, body_results = results, body_db = w2, body_emitted = log2\<rparr>
      | (Inr export_msgs, w2) \<Rightarrow>
          check_on_target env results xml_clob w2 (log2 @ export_msgs))))"

text \<open>
  Check 10 with its handler:
  \<^verbatim>\<open>
  except Exception as e:
      if str(e) == "SKIP_FILE_BASED_CHECK" or str(e) == "ALL_METHODS_FAILED_FILE_BASED_ONLY":
          emit_progress(f"INFO: Continuing with remaining validation checks...")
          validation_results.append({'check': 'DBMS_PDB Plug Compatibility',
              'status': 'SKIPPED', 'source_value': 'N/A',
              'target_value': 'File-based only (requires manual check)'})
      else:
          ...
          validation_results.append({'check': 'DBMS_PDB Plug Compatibility',
              'status': 'SKIPPED', 'source_value': 'Check failed',
              'target_value': f'Error: {str(e)}', 'violations': []})
  \<close>
\<close>

definition check_plug_compatibility_step :: "'w env \<Rightarrow> params \<Rightarrow> 'w precheck \<Rightarrow> 'w precheck" where
  "check_plug_compatibility_step env p st =
     (let b = plug_compatibility_body env p (validation_results st) (db st);
          log0 = emitted st @ [''Checking plug compatibility (using CLOB method)...''] @ body_emitted b
      in case body_raised b of
        None \<Rightarrow> st\<lparr>validation_results := body_results b, db := body_db b, emitted := log0\<rparr>
      | Some e \<Rightarrow>
          if message e = ''SKIP_FILE_BASED_CHECK'' \<or> message e = ''ALL_METHODS_FAILED_FILE_BASED_ONLY''
          then st\<lparr>validation_results := body_results b @
                     [\<lparr>check = ''DBMS_PDB Plug Compatibility'', status = ''SKIPPED'',
                       source_value = ''N/A'',
                       target_value = ''File-based only (requires manual check)'',
                       violations = None\<rparr>],
                   db := body_db b,
                   emitted := log0 @ [''INFO: Continuing with remaining validation checks...'']\<rparr>
          else st\<lparr>validation_results := body_results b @
                     [\<lparr>check = ''DBMS_PDB Plug Compatibility'', status = ''SKIPPED'',
                       source_value = ''Check failed'',
                       target_value = ''Error: '' @ message e,
                       violations = Some []\<rparr>],
                   db := body_db b,
                   emitted := log0 @
                     [''ERROR: Plug compatibility check failed!'',
                      ''ERROR: Exception type: '' @ kind e,
                      ''ERROR: Exception message: '' @ message e,
                      ''ERROR: Full traceback:''] @
                     map (\<lambda>line. ''  '' @ line) (filter (\<lambda>line. py_strip line \<noteq> []) (format_exc env e))\<rparr>)"

text \<open>
  The data gathering that follows check 10, to the \<^verbatim>\<open>return\<close> of
  \<^verbatim>\<open>perform_pdb_precheck\<close>. The two queries through the CDB cursors and the closing are
  not guarded; the PDB parameters are gathered inside \<^verbatim>\<open>try\<close> statements that fall back
  to the empty list.
\<close>

definition target_pdb_exists :: "pyval \<Rightarrow> bool" where
  "target_pdb_exists pdb_mode =
     (case pdb_mode of PyNone \<Rightarrow> False | PyStr m \<Rightarrow> m \<noteq> [] \<and> m \<noteq> ''Does not exist'')"



section \<open>Strategies, a mock connection and a server with files\<close>





text \<open>
  A database server with a file system, as far as the four blocks go. The server decides
  what \<^verbatim>\<open>DBMS_PDB.DESCRIBE\<close> does in each calling form; each of the other Oracle calls
  of Method 4 works or raises (\<open>fault\<close>); \<open>data_pump_dir\<close> holds the files of
  \<^verbatim>\<open>DATA_PUMP_DIR\<close> as lists of lines. \<open>run_method4\<close> follows the text of
  \<^verbatim>\<open>plsql_block_method4\<close>: the block has one handler, for \<^verbatim>\<open>NO_DATA_FOUND\<close> in the reading
  loop, and any other exception leaves the block at once.
\<close>

datatype oracle_call =
  DBMS_LOB_CREATETEMPORARY | UTL_FILE_FOPEN | UTL_FILE_GET_LINE | DBMS_LOB_WRITEAPPEND
  | UTL_FILE_FCLOSE | UTL_FILE_FREMOVE

record server =
  sysdate :: string
  describe_xml_named :: "string \<Rightarrow> exn + string option"
  describe_xml_positional :: "string \<Rightarrow> exn + string option"
  describe_file :: "string \<Rightarrow> exn + string list"
  fault :: "oracle_call \<Rightarrow> exn option"
  data_pump_dir :: "(string \<times> string list) list"

fun read_back :: "server \<Rightarrow> string list \<Rightarrow> string \<Rightarrow> exn + string" where
  "read_back srv [] v_clob =
     (case fault srv UTL_FILE_GET_LINE of Some e \<Rightarrow> Inl e | None \<Rightarrow> Inr v_clob)"
| "read_back srv (v_line # rest) v_clob =
     (case fault srv UTL_FILE_GET_LINE of
        Some e \<Rightarrow> Inl e
      | None \<Rightarrow>
          (case fault srv DBMS_LOB_WRITEAPPEND of
             Some e \<Rightarrow> Inl e
           | None \<Rightarrow> read_back srv rest (v_clob @ v_line @ [CHR 0x0A])))"

definition run_method4 :: "server \<Rightarrow> string \<Rightarrow> (exn + string option) \<times> server" where
  "run_method4 srv v_pdb_name =
     (let v_filename = ''pdb_describe_'' @ sysdate srv @ ''.xml''
      in case describe_file srv v_pdb_name of
        Inl e \<Rightarrow> (Inl e, srv)
      | Inr written \<Rightarrow>
     (let srv1 = srv\<lparr>data_pump_dir := AList.update v_filename written (data_pump_dir srv)\<rparr>
      in case fault srv1 DBMS_LOB_CREATETEMPORARY of
        Some e \<Rightarrow> (Inl e, srv1)
      | None \<Rightarrow>
     (case fault srv1 UTL_FILE_FOPEN of
        Some e \<Rightarrow> (Inl e, srv1)
      | None \<Rightarrow>
     (case map_of (data_pump_dir srv1) v_filename of
        None \<Rightarrow> (Inl (Exn ''DatabaseError'' ''ORA-29283: invalid file operation'' None), srv1)
      | Some file_lines \<Rightarrow>
     (case read_back srv1 file_lines [] of
        Inl e \<Rightarrow> (Inl e, srv1)
      | Inr v_clob \<Rightarrow>
     (case fault srv1 UTL_FILE_FCLOSE of
        Some e \<Rightarrow> (Inl e, srv1)
      | None \<Rightarrow>
     (case fault srv1 UTL_FILE_FREMOVE of
        Some e \<Rightarrow> (Inl e, srv1)
      | None \<Rightarrow>
          (Inr (Some v_clob),
           srv1\<lparr>data_pump_dir := AList.delete v_filename (data_pump_dir srv1)\<rparr>))))))))"

definition server_execute :: "server cursor_execute" where
  "server_execute srv statement pdb_name =
     (if statement = plsql_block_method1 \<or> statement = plsql_block_method2
      then (describe_xml_named srv pdb_name, srv)
      else if statement = plsql_block_method3
      then (describe_xml_positional srv pdb_name, srv)
      else if statement = plsql_block_method4
      then run_method4 srv pdb_name
      else (Inl (Exn ''DatabaseError'' ''ORA-00900: invalid SQL statement'' None), srv))"

text \<open>
  Concrete inputs: connection parameters, a mock environment in which everything but the
  four \<^verbatim>\<open>DESCRIBE\<close> calls succeeds, a precheck that has recorded no result yet, and a
  server on which \<^verbatim>\<open>DBMS_PDB.DESCRIBE\<close> has no CLOB form, writes its file, and
  \<^verbatim>\<open>UTL_FILE.FOPEN\<close> is refused.
\<close>

definition example_params :: params where
  "example_params =
     \<lparr>source_scan = ''scan1'', source_port = ''1521'', source_cdb = ''CDB1'', source_pdb = ''PDB1'',
      target_cdb = ''CDB2''\<rparr>"



definition ora_06550 :: exn where
  "ora_06550 = Exn ''DatabaseError'' ''ORA-06550: PLS-00306: wrong number or types of arguments'' None"

definition fopen_refused_server :: server where
  "fopen_refused_server =
     \<lparr>sysdate = ''20261104101500'',
      describe_xml_named = (\<lambda>pdb_name. Inl ora_06550),
      describe_xml_positional = (\<lambda>pdb_name. Inl ora_06550),
      describe_file = (\<lambda>pdb_name. Inr [''<PDB>'', ''</PDB>'']),
      fault = (\<lambda>c. if c = UTL_FILE_FOPEN
                     then Some (Exn ''DatabaseError'' ''ORA-29283: invalid file operation'' None)
                     else None),
      data_pump_dir = []\<rparr>"

section \<open>Floats\<close>

text \<open>
  A Python \<^verbatim>\<open>float\<close> is an IEEE 754 double: a rational number that has such a
  representation, an infinity, or NaN. The two zeros compare equal and are one value here.
  \<open>to_double\<close> rounds a rational to the nearest double, ties to the even mantissa, with
  gradual underflow and overflow to infinity, as the conversion of a decimal string and
  every arithmetic operation do.
\<close>

datatype pyfloat = Finite rat | PosInf | NegInf | NaN

definition round_half_even :: "rat \<Rightarrow> int" where
  "round_half_even x =
     (let f = \<lfloor>x\<rfloor>; d = x - of_int f
      in if d < 1/2 then f else if 1/2 < d then f + 1 else if even f then f else f + 1)"

definition pow2 :: "int \<Rightarrow> rat" where
  "pow2 e = (if 0 \<le> e then 2 ^ nat e else 1 / 2 ^ nat (- e))"

definition floor_log2 :: "rat \<Rightarrow> int" where
  "floor_log2 a =
     (let (n, d) = quotient_of a; e0 = bitlen n - bitlen d
      in if pow2 e0 \<le> a then e0 else e0 - 1)"

definition to_double :: "rat \<Rightarrow> pyfloat" where
  "to_double q =
     (if q = 0 then Finite 0
      else let a = \<bar>q\<bar>;
               e = max (floor_log2 a) (- 1022);
               ulp = pow2 (e - 52);
               v = of_int (round_half_even (a / ulp)) * ulp
           in if 1024 \<le> floor_log2 v then (if q < 0 then NegInf else PosInf)
              else Finite (if q < 0 then - v else v))"

text \<open>
  \<^verbatim>\<open>x / n\<close> and \<^verbatim>\<open>x * n\<close> for a positive integer \<open>n\<close> that is itself a double (1024
  and \<^verbatim>\<open>1024**3\<close>), and \<^verbatim>\<open>x >= s\<close> for a finite number \<open>s\<close>. Neither operation
  raises; a comparison with NaN is false.
\<close>

definition py_truediv :: "pyfloat \<Rightarrow> rat \<Rightarrow> pyfloat" where
  "py_truediv x n = (case x of Finite q \<Rightarrow> to_double (q / n) | _ \<Rightarrow> x)"

definition py_mul :: "pyfloat \<Rightarrow> rat \<Rightarrow> pyfloat" where
  "py_mul x n = (case x of Finite q \<Rightarrow> to_double (q * n) | _ \<Rightarrow> x)"



section \<open>Strings\<close>

text \<open>
  \<^verbatim>\<open>str.upper()\<close> and \<^verbatim>\<open>str.lower()\<close> on ASCII strings (a character outside ASCII is
  left as it is), \<^verbatim>\<open>s.replace(c, '')\<close> for a single character \<open>c\<close>, and \<^verbatim>\<open>c in s\<close>
  as membership in \<^term>\<open>set s\<close>.
\<close>

definition py_upper_char :: "char \<Rightarrow> char" where
  "py_upper_char c =
     (case map_of (zip ''abcdefghijklmnopqrstuvwxyz'' ''ABCDEFGHIJKLMNOPQRSTUVWXYZ'') c of
        Some u \<Rightarrow> u | None \<Rightarrow> c)"

definition py_upper :: "string \<Rightarrow> string" where
  "py_upper s = map py_upper_char s"

definition py_lower_char :: "char \<Rightarrow> char" where
  "py_lower_char c =
     (case map_of (zip ''ABCDEFGHIJKLMNOPQRSTUVWXYZ'' ''abcdefghijklmnopqrstuvwxyz'') c of
        Some l \<Rightarrow> l | None \<Rightarrow> c)"

definition py_lower :: "string \<Rightarrow> string" where
  "py_lower s = map py_lower_char s"

definition py_remove :: "char \<Rightarrow> string \<Rightarrow> string" where
  "py_remove c s = filter (\<lambda>x. x \<noteq> c) s"

section \<open>The builtin float() on a string\<close>

text \<open>
  \<^verbatim>\<open>float(s)\<close> accepts, between whitespace, an optional sign followed by
  \<^verbatim>\<open>inf\<close>, \<^verbatim>\<open>infinity\<close> or \<^verbatim>\<open>nan\<close> in any case, or by a number: digits with an
  optional point and an optional exponent, where a digit part is
  \<^verbatim>\<open>digit (["_"] digit)*\<close>. It raises \<^verbatim>\<open>ValueError\<close> on every other string and
  raises nothing else. The whitespace it removes is not that of \<^verbatim>\<open>str.strip\<close>: the
  code points 28 to 31 stay.
\<close>

definition is_digit :: "char \<Rightarrow> bool" where
  "is_digit c = (c \<in> set ''0123456789'')"

definition digit_value :: "char \<Rightarrow> int" where
  "digit_value c =
     (case map_of (zip ''0123456789'' [0, 1, 2, 3, 4, 5, 6, 7, 8, 9]) c of Some d \<Rightarrow> d | None \<Rightarrow> 0)"

fun valid_digitpart :: "string \<Rightarrow> bool" where
  "valid_digitpart [] = False"
| "valid_digitpart [c] = is_digit c"
| "valid_digitpart (c # d # cs) =
     (is_digit c \<and> (if d = CHR ''_'' then valid_digitpart cs else valid_digitpart (d # cs)))"

definition digits_value :: "string \<Rightarrow> int" where
  "digits_value ds = foldl (\<lambda>a c. 10 * a + digit_value c) 0 (filter is_digit ds)"

definition split_at :: "(char \<Rightarrow> bool) \<Rightarrow> string \<Rightarrow> string \<times> string option" where
  "split_at P s =
     (takeWhile (\<lambda>c. \<not> P c) s,
      case dropWhile (\<lambda>c. \<not> P c) s of [] \<Rightarrow> None | c # rest \<Rightarrow> Some rest)"

definition parse_exponent :: "string option \<Rightarrow> int option" where
  "parse_exponent ex =
     (case ex of
        None \<Rightarrow> Some 0
      | Some t \<Rightarrow>
          (case t of
             c # ds \<Rightarrow>
               if c = CHR ''-'' then (if valid_digitpart ds then Some (- digits_value ds) else None)
               else if c = CHR ''+'' then (if valid_digitpart ds then Some (digits_value ds) else None)
               else if valid_digitpart t then Some (digits_value t) else None
           | [] \<Rightarrow> None))"

definition pow10 :: "int \<Rightarrow> rat" where
  "pow10 e = (if 0 \<le> e then 10 ^ nat e else 1 / 10 ^ nat (- e))"

definition parse_mantissa :: "string \<Rightarrow> rat option" where
  "parse_mantissa m =
     (case split_at (\<lambda>c. c = CHR ''.'') m of
        (ip, None) \<Rightarrow> if valid_digitpart ip then Some (of_int (digits_value ip)) else None
      | (ip, Some fp) \<Rightarrow>
          if (ip = [] \<and> valid_digitpart fp) \<or> (valid_digitpart ip \<and> (fp = [] \<or> valid_digitpart fp))
          then Some (of_int (digits_value ip)
                     + of_int (digits_value fp) / 10 ^ length (filter is_digit fp))
          else None)"

definition parse_number :: "string \<Rightarrow> rat option" where
  "parse_number t =
     (case split_at (\<lambda>c. c = CHR ''e'' \<or> c = CHR ''E'') t of
        (m, ex) \<Rightarrow>
          (case parse_mantissa m of
             None \<Rightarrow> None
           | Some q \<Rightarrow> (case parse_exponent ex of None \<Rightarrow> None | Some e \<Rightarrow> Some (q * pow10 e))))"

definition float_isspace :: "char \<Rightarrow> bool" where
  "float_isspace c = (of_char c \<in> {9, 10, 11, 12, 13, 32, 133, 160 :: nat})"

definition py_float :: "string \<Rightarrow> exn + pyfloat" where
  "py_float s =
     (let t = rev (dropWhile float_isspace (rev (dropWhile float_isspace s)));
          (negative, body) =
            (case t of
               c # rest \<Rightarrow> if c = CHR ''-'' then (True, rest)
                            else if c = CHR ''+'' then (False, rest) else (False, t)
             | [] \<Rightarrow> (False, t))
      in if py_lower body = ''inf'' \<or> py_lower body = ''infinity''
         then Inr (if negative then NegInf else PosInf)
         else if py_lower body = ''nan'' then Inr NaN
         else case parse_number body of
                None \<Rightarrow> Inl (Exn ''ValueError'' ''could not convert string to float'' None)
              | Some q \<Rightarrow> Inr (to_double (if negative then - q else q)))"

section \<open>Formatting with two decimals\<close>

text \<open>
  \<^verbatim>\<open>f"{x:.2f}"\<close>: the exact value of the double rounded to two decimals, ties to even,
  with a minus sign for a negative number, also one that rounds to zero.
\<close>

definition format_2f :: "pyfloat \<Rightarrow> string" where
  "format_2f x =
     (case x of
        NaN \<Rightarrow> ''nan''
      | PosInf \<Rightarrow> ''inf''
      | NegInf \<Rightarrow> ''-inf''
      | Finite q \<Rightarrow>
          (let n = nat (round_half_even (\<bar>q\<bar> * 100))
           in (if q < 0 then ''-'' else []) @ str_of_nat (n div 100) @ ''.''
              @ [''0123456789'' ! (n mod 100 div 10), ''0123456789'' ! (n mod 10)]))"

section \<open>Storage quantities (utils/helper_functions.py)\<close>

text \<open>
  \<^verbatim>\<open>parse_storage_value\<close>. The conversions of the \<^verbatim>\<open>try\<close> block are
  \<open>parse_storage_body\<close>; the handler catches \<^verbatim>\<open>ValueError\<close> and \<^verbatim>\<open>AttributeError\<close>
  and lets every other exception pass.
  \<^verbatim>\<open>
  if not storage_str: return None
  storage_str_upper = storage_str.upper().strip()
  if storage_str_upper == 'UNLIMITED': return None
  try:
      if 'G' in storage_str_upper:   return float(storage_str_upper.replace('G', ''))
      elif 'M' in storage_str_upper: mb_val = float(storage_str_upper.replace('M', ''))
                                     return mb_val / 1024
      elif 'T' in storage_str_upper: tb_val = float(storage_str_upper.replace('T', ''))
                                     return tb_val * 1024
      else:                          bytes_val = float(storage_str_upper)
                                     return bytes_val / (1024**3)
  except (ValueError, AttributeError):
      return None
  \<close>
\<close>

definition parse_storage_body :: "string \<Rightarrow> exn + pyfloat" where
  "parse_storage_body storage_str_upper =
     (if CHR ''G'' \<in> set storage_str_upper
      then py_float (py_remove (CHR ''G'') storage_str_upper)
      else if CHR ''M'' \<in> set storage_str_upper
      then (case py_float (py_remove (CHR ''M'') storage_str_upper) of
              Inl e \<Rightarrow> Inl e
            | Inr mb_val \<Rightarrow> Inr (py_truediv mb_val 1024))
      else if CHR ''T'' \<in> set storage_str_upper
      then (case py_float (py_remove (CHR ''T'') storage_str_upper) of
              Inl e \<Rightarrow> Inl e
            | Inr tb_val \<Rightarrow> Inr (py_mul tb_val 1024))
      else (case py_float storage_str_upper of
              Inl e \<Rightarrow> Inl e
            | Inr bytes_val \<Rightarrow> Inr (py_truediv bytes_val (1024 ^ 3))))"

definition parse_storage_value :: "string \<Rightarrow> exn + pyfloat option" where
  "parse_storage_value storage_str =
     (if storage_str = [] then Inr None
      else let storage_str_upper = py_strip (py_upper storage_str)
           in if storage_str_upper = ''UNLIMITED'' then Inr None
              else case parse_storage_body storage_str_upper of
                     Inr gb \<Rightarrow> Inr (Some gb)
                   | Inl e \<Rightarrow>
                       if kind e = ''ValueError'' \<or> kind e = ''AttributeError''
                       then Inr None else Inl e)"

text \<open>
  \<^verbatim>\<open>format_storage_gb\<close> and \<^verbatim>\<open>convert_storage_to_gb\<close>, which returns a string when
  \<^verbatim>\<open>display_format\<close> is true and the parsed value otherwise.
\<close>

definition format_storage_gb :: "pyfloat option \<Rightarrow> string \<Rightarrow> string" where
  "format_storage_gb gb_value unlimited_text =
     (case gb_value of None \<Rightarrow> unlimited_text | Some x \<Rightarrow> format_2f x @ ''G'')"

definition convert_storage_to_gb :: "string \<Rightarrow> bool \<Rightarrow> exn + (string + pyfloat option)" where
  "convert_storage_to_gb storage_str display_format =
     (case parse_storage_value storage_str of
        Inl e \<Rightarrow> Inl e
      | Inr gb_value \<Rightarrow>
          if display_format then Inr (Inl (format_storage_gb gb_value ''UNLIMITED''))
          else Inr (Inr gb_value))"

text \<open>
  What \<open>format_2f\<close> prints, as a number.
\<close>

definition round_2f :: "rat \<Rightarrow> rat" where
  "round_2f q = (if q < 0 then - 1 else 1) * of_int (round_half_even (\<bar>q\<bar> * 100)) / 100"

section \<open>Check 9 of the precheck: the MAX_PDB_STORAGE limit\<close>






section \<open>Properties of the overall status\<close>

text \<open>
  Claim C9. In the overall status of the precheck report a SKIPPED result is never counted
  as a failure: the overall status is PASS exactly when every result that is not SKIPPED
  is PASS. In particular a list of PASS and SKIPPED results only is reported PASS, and a
  list with a FAILED result is reported FAIL.
\<close>

theorem overall_status_ignores_skipped:
  "(overall_status rs = ''PASS'' \<longleftrightarrow>
      (\<forall>r \<in> set rs. status r \<noteq> ''SKIPPED'' \<longrightarrow> status r = ''PASS''))
   \<and> ((\<forall>r \<in> set rs. status r = ''PASS'' \<or> status r = ''SKIPPED'') \<longrightarrow> overall_status rs = ''PASS'')
   \<and> ((\<exists>r \<in> set rs. status r = ''FAILED'') \<longrightarrow> overall_status rs = ''FAIL'')"
  by (auto simp: overall_status_def overall_pass_def list_all_iff)

theorem overall_status_ignores_skipped_witness:
  "overall_status
     [\<lparr>check = ''Character Set Compatibility'', status = ''PASS'', source_value = ''AL32UTF8'',
        target_value = ''AL32UTF8'', violations = None\<rparr>,
      \<lparr>check = ''DBMS_PDB Plug Compatibility'', status = ''SKIPPED'', source_value = ''N/A'',
        target_value = ''File-based only (requires manual check)'', violations = None\<rparr>] = ''PASS''
   \<and> overall_status
     [\<lparr>check = ''Local Undo Mode'', status = ''FAILED'', source_value = ''TRUE'',
        target_value = ''FALSE'', violations = None\<rparr>,
      \<lparr>check = ''DBMS_PDB Plug Compatibility'', status = ''SKIPPED'', source_value = ''N/A'',
        target_value = ''File-based only (requires manual check)'', violations = None\<rparr>] = ''FAIL''"
  using overall_status_ignores_skipped
    [of "[\<lparr>check = ''Character Set Compatibility'', status = ''PASS'', source_value = ''AL32UTF8'',
        target_value = ''AL32UTF8'', violations = None\<rparr>,
      \<lparr>check = ''DBMS_PDB Plug Compatibility'', status = ''SKIPPED'', source_value = ''N/A'',
        target_value = ''File-based only (requires manual check)'', violations = None\<rparr>]"]
    overall_status_ignores_skipped
    [of "[\<lparr>check = ''Local Undo Mode'', status = ''FAILED'', source_value = ''TRUE'',
        target_value = ''FALSE'', violations = None\<rparr>,
      \<lparr>check = ''DBMS_PDB Plug Compatibility'', status = ''SKIPPED'', source_value = ''N/A'',
        target_value = ''File-based only (requires manual check)'', violations = None\<rparr>]"]
  by simp

section \<open>Properties of the parameter comparison\<close>

lemma set_sorted_key_union:
  "set (sorted_key_union a b) = set (dict_keys a) \<union> set (dict_keys b)"
  by (simp add: sorted_key_union_def)




lemma foldl_append_if:
  "foldl (\<lambda>acc k. if P k then acc @ [f k] else acc) acc0 ks = acc0 @ map f (filter P ks)"
  by (induction ks arbitrary: acc0) auto

lemma param_differences_filter:
  "param_differences s t =
     map (\<lambda>k. (k, dict_get s k (PyStr ''N/A''), dict_get t k (PyStr ''N/A'')))
         (filter (\<lambda>k. dict_get s k (PyStr ''N/A'') \<noteq> dict_get t k (PyStr ''N/A''))
                 (sorted_key_union s t))"
  unfolding param_differences_def Let_def
  using foldl_append_if [of "\<lambda>k. dict_get s k (PyStr ''N/A'') \<noteq> dict_get t k (PyStr ''N/A'')"
         "\<lambda>k. (k, dict_get s k (PyStr ''N/A''), dict_get t k (PyStr ''N/A''))" "[]" "sorted_key_union s t"]
  by simp


lemma map_row_param_pdb: "map row_param (pdb_param_rows s t) = sorted_key_union s t"
  by (simp add: pdb_param_rows_def pdb_param_row_def row_param_def Let_def comp_def)


lemma dict_get_absent: "k \<notin> set (dict_keys d) \<Longrightarrow> dict_get d k dflt = dflt"
  by (simp add: dict_get_def dict_keys_def map_of_eq_None_iff [THEN iffD2] split: option.splits)


text \<open>
  Claim C1. The status of a row of the PDB parameter table is a function of the flag
  and the two displayed values: Pending whenever the target does not exist, whatever the
  values; otherwise SAME exactly when the source value equals the target value (a side
  without the key carries the string \<^verbatim>\<open>Not Set\<close>, so two such values are equal), and
  DIFF otherwise. Every key of the union has such a row in the table, with the flag the
  report derives from the target map.
\<close>

theorem pdb_param_classification:
  "row_status (pdb_param_row target_exists s t param) =
     (if \<not> target_exists then ''Pending''
      else if dict_get s param (PyStr ''Not Set'') = dict_get t param (PyStr ''Not Set'') then ''SAME''
      else ''DIFF'')
   \<and> (\<forall>k \<in> set (dict_keys s) \<union> set (dict_keys t).
        \<exists>row \<in> set (pdb_param_rows s t). row_param row = k \<and>
          row_status row =
            (if t = [] then ''Pending''
             else if dict_get s k (PyStr ''Not Set'') = dict_get t k (PyStr ''Not Set'') then ''SAME''
             else ''DIFF''))"
proof -
  have row: "\<And>ex p. row_status (pdb_param_row ex s t p) =
     (if \<not> ex then ''Pending''
      else if dict_get s p (PyStr ''Not Set'') = dict_get t p (PyStr ''Not Set'') then ''SAME''
      else ''DIFF'')"
    by (simp add: pdb_param_row_def row_status_def Let_def)
  have tab: "\<exists>row \<in> set (pdb_param_rows s t). row_param row = k \<and>
          row_status row =
            (if t = [] then ''Pending''
             else if dict_get s k (PyStr ''Not Set'') = dict_get t k (PyStr ''Not Set'') then ''SAME''
             else ''DIFF'')" if "k \<in> set (dict_keys s) \<union> set (dict_keys t)" for k
  proof -
    from that have "k \<in> set (sorted_key_union s t)" by (simp only: set_sorted_key_union)
    then have "pdb_param_row (t \<noteq> []) s t k \<in> set (pdb_param_rows s t)"
      by (simp add: pdb_param_rows_def Let_def)
    moreover have "row_param (pdb_param_row (t \<noteq> []) s t k) = k"
      by (simp add: pdb_param_row_def row_param_def Let_def)
    ultimately show ?thesis using row [of "t \<noteq> []" k] by (intro bexI [of _ "pdb_param_row (t \<noteq> []) s t k"]) auto
  qed
  from row tab show ?thesis by blast
qed

text \<open>
  Claim C10. In the postcheck comparison a key that one map lacks is looked up as the
  string \<^verbatim>\<open>N/A\<close>. When the other map holds exactly \<^verbatim>\<open>N/A\<close> for that key, the two
  values compare equal and the key is not in the list of differences; and there are maps
  with different key sets for which the check \<^verbatim>\<open>Oracle DB Parameters Match\<close> is PASS.
\<close>

theorem postcheck_na_masks_missing_key:
  "((map_of s k = Some (PyStr ''N/A'') \<and> k \<notin> set (dict_keys t)
      \<or> k \<notin> set (dict_keys s) \<and> map_of t k = Some (PyStr ''N/A'')) \<longrightarrow>
      dict_get s k (PyStr ''N/A'') = dict_get t k (PyStr ''N/A'')
      \<and> k \<notin> fst ` set (param_differences s t))
   \<and> (\<exists>s' t'. set (dict_keys s') \<noteq> set (dict_keys t')
         \<and> status (params_match_result s' t') = ''PASS'')"
proof -
  have a: "dict_get s k (PyStr ''N/A'') = dict_get t k (PyStr ''N/A'')
      \<and> k \<notin> fst ` set (param_differences s t)"
    if "map_of s k = Some (PyStr ''N/A'') \<and> k \<notin> set (dict_keys t)
      \<or> k \<notin> set (dict_keys s) \<and> map_of t k = Some (PyStr ''N/A'')"
  proof -
    from that have "dict_get s k (PyStr ''N/A'') = dict_get t k (PyStr ''N/A'')"
      by (auto simp: dict_get_absent) (simp_all add: dict_get_def)
    then show ?thesis by (auto simp: param_differences_filter)
  qed
  have b: "set (dict_keys [(''x'', PyStr ''N/A'')]) \<noteq> set (dict_keys ([] :: pyval dict))
         \<and> status (params_match_result [(''x'', PyStr ''N/A'')] []) = ''PASS''"
    by (simp add: params_match_result_def params_match_def param_differences_def sorted_key_union_def dict_keys_def dict_get_def)
  from a b show ?thesis by blast
qed



theorem pdb_param_classification_witness:
  "row_status (pdb_param_row False [(''A'', PyStr ''1'')] [] ''A'') = ''Pending''
   \<and> row_status (pdb_param_row True [(''A'', PyStr ''Not Set'')] [(''B'', PyStr ''x'')] ''A'') = ''SAME''
   \<and> (\<exists>row \<in> set (pdb_param_rows [(''A'', PyStr ''1''), (''B'', PyStr ''2'')]
                                     [(''A'', PyStr ''1''), (''B'', PyStr ''3'')]).
         row_param row = ''B'' \<and> row_status row = ''DIFF'')
   \<and> (\<exists>row \<in> set (pdb_param_rows [(''A'', PyStr ''1'')] []).
         row_param row = ''A'' \<and> row_status row = ''Pending'')"
  using pdb_param_classification [of False "[(''A'', PyStr ''1'')]" "[]" "''A''"]
        pdb_param_classification [of True "[(''A'', PyStr ''Not Set'')]" "[(''B'', PyStr ''x'')]" "''A''"]
        pdb_param_classification [of True "[(''A'', PyStr ''1''), (''B'', PyStr ''2'')]"
                                     "[(''A'', PyStr ''1''), (''B'', PyStr ''3'')]" "''B''"]
  by (simp add: dict_keys_def dict_get_def)

theorem postcheck_na_masks_missing_key_witness:
  "dict_get [(''x'', PyStr ''N/A''), (''y'', PyStr ''1'')] ''x'' (PyStr ''N/A'')
     = dict_get [(''y'', PyStr ''1'')] ''x'' (PyStr ''N/A'')
   \<and> ''x'' \<notin> fst ` set (param_differences [(''x'', PyStr ''N/A''), (''y'', PyStr ''1'')] [(''y'', PyStr ''1'')])"
  using postcheck_na_masks_missing_key
          [of "[(''x'', PyStr ''N/A''), (''y'', PyStr ''1'')]" "''x''" "[(''y'', PyStr ''1'')]"]
  by (simp add: dict_keys_def)

section \<open>Properties of the resolver and of check 10\<close>

lemma method2_is_method1: "plsql_block_method2 = plsql_block_method1"
  by (simp add: plsql_block_method2_def plsql_block_method1_def)











lemma describe_all_failed:
  assumes "execute w0 plsql_block_method1 (source_pdb p) = (Inl e1, w1)"
    and "execute w1 plsql_block_method2 (source_pdb p) = (Inl e2, w2)"
    and "execute w2 plsql_block_method3 (source_pdb p) = (Inl e3, w3)"
    and "execute w3 plsql_block_method4 (source_pdb p) = (Inl e4, w4)"
  shows "raised (describe execute p w0) =
           Some (Exn ''Exception'' ''ALL_METHODS_FAILED_FILE_BASED_ONLY''
                  (Some (Exn (kind e4) (message e4)
                    (Some (Exn (kind e3) (message e3)
                      (Some (Exn (kind e2) (message e2) (Some e1))))))))
    \<and> executed (describe execute p w0) =
        [plsql_block_method1, plsql_block_method2, plsql_block_method3, plsql_block_method4]
    \<and> world (describe execute p w0) = w4
    \<and> progress (describe execute p w0) = progress (try_describe_methods execute p w0)"
  using assms by (simp add: describe_def try_describe_methods_def Let_def raised_while_handling_def)









lemma body_exit_cases:
  assumes "\<And>e w log0. P \<lparr>body_raised = Some e, body_results = results, body_db = w, body_emitted = log0\<rparr>"
    and "\<And>r w log0. P \<lparr>body_raised = None, body_results = results @ [r], body_db = w, body_emitted = log0\<rparr>"
  shows "P (plug_compatibility_body env p results w0)"
proof -
  have c: "P (check_on_target env results xml_clob w log0)" for xml_clob w log0
    by (simp add: check_on_target_def Let_def assms split: prod.splits sum.splits)
  show ?thesis
    by (simp add: plug_compatibility_body_def Let_def assms c split: prod.splits sum.splits option.splits)
qed

lemma body_results_cases:
  "(body_raised (plug_compatibility_body env p results w0) = None \<longrightarrow>
      (\<exists>r. body_results (plug_compatibility_body env p results w0) = results @ [r]))
   \<and> (body_raised (plug_compatibility_body env p results w0) \<noteq> None \<longrightarrow>
      body_results (plug_compatibility_body env p results w0) = results)"
  by (rule body_exit_cases) simp_all


lemma step_skipped_on_exception:
  assumes "body_raised (plug_compatibility_body env p (validation_results st) (db st)) = Some e"
  shows "\<exists>r. validation_results (check_plug_compatibility_step env p st) = validation_results st @ [r]
           \<and> status r = ''SKIPPED''"
  using body_results_cases [of env p "validation_results st" "db st"] assms
  by (simp add: check_plug_compatibility_step_def Let_def)







lemma block_distinct:
  "plsql_block_method2 = plsql_block_method1"
  "plsql_block_method3 \<noteq> plsql_block_method1"
  "plsql_block_method4 \<noteq> plsql_block_method1"
  "plsql_block_method4 \<noteq> plsql_block_method3"
  by (simp_all add: plsql_block_method1_def plsql_block_method2_def plsql_block_method3_def
        plsql_block_method4_def)

text \<open>
  Claim C8 says that the temporary file of Method 4 never remains on the server. On a
  server where the three CLOB calls fail, \<^verbatim>\<open>DBMS_PDB.DESCRIBE\<close> writes its file and
  \<^verbatim>\<open>UTL_FILE.FOPEN\<close> is refused, the block is left before \<^verbatim>\<open>UTL_FILE.FREMOVE\<close>: all
  four methods have failed and the file is still in \<^verbatim>\<open>DATA_PUMP_DIR\<close>.
\<close>

theorem method4_failure_leaves_file:
  "message (the (raised (describe server_execute example_params fopen_refused_server)))
     = ''ALL_METHODS_FAILED_FILE_BASED_ONLY''
   \<and> data_pump_dir (world (describe server_execute example_params fopen_refused_server))
     = [(''pdb_describe_20261104101500.xml'', [''<PDB>'', ''</PDB>''])]"
proof -
  let ?s1 = "fopen_refused_server\<lparr>data_pump_dir :=
                [(''pdb_describe_20261104101500.xml'', [''<PDB>'', ''</PDB>''])]\<rparr>"
  have 1: "server_execute fopen_refused_server plsql_block_method1 (source_pdb example_params)
             = (Inl ora_06550, fopen_refused_server)"
    by (simp add: server_execute_def fopen_refused_server_def)
  have 2: "server_execute fopen_refused_server plsql_block_method2 (source_pdb example_params)
             = (Inl ora_06550, fopen_refused_server)"
    by (simp add: server_execute_def fopen_refused_server_def)
  have 3: "server_execute fopen_refused_server plsql_block_method3 (source_pdb example_params)
             = (Inl ora_06550, fopen_refused_server)"
    by (simp add: server_execute_def fopen_refused_server_def block_distinct)
  have 4: "server_execute fopen_refused_server plsql_block_method4 (source_pdb example_params)
             = (Inl (Exn ''DatabaseError'' ''ORA-29283: invalid file operation'' None), ?s1)"
    by (simp add: server_execute_def run_method4_def fopen_refused_server_def block_distinct Let_def)
  from describe_all_failed [where execute = server_execute and p = example_params, OF 1 2 3 4]
  show ?thesis by simp
qed

lemma run_method4_success_removes_file:
  assumes "run_method4 srv pdb_name = (Inr xml, srv')"
  shows "map_of (data_pump_dir srv') (''pdb_describe_'' @ sysdate srv @ ''.xml'') = None"
  using assms
  by (auto simp: run_method4_def Let_def delete_conv split: sum.splits option.splits)

section \<open>Properties of the storage parser and of check 9\<close>

lemma py_float_raises:
  "py_float s = Inl e \<Longrightarrow> kind e = ''ValueError''"
  by (auto simp: py_float_def Let_def split: prod.splits option.splits if_splits)

lemma parse_storage_body_raises:
  "parse_storage_body u = Inl e \<Longrightarrow> kind e = ''ValueError''"
  by (auto simp: parse_storage_body_def split: if_splits sum.splits dest: py_float_raises)

lemma parse_storage_value_cases:
  "parse_storage_value s =
     (if s = [] \<or> py_strip (py_upper s) = ''UNLIMITED'' then Inr None
      else case parse_storage_body (py_strip (py_upper s)) of
             Inr gb \<Rightarrow> Inr (Some gb) | Inl e \<Rightarrow> Inr None)"
  by (auto simp: parse_storage_value_def Let_def split: sum.splits dest: parse_storage_body_raises)

text \<open>
  Claim C5, amended. For every input string the parser returns and raises nothing, and so
  does the conversion function built on it: the result is the unlimited sentinel or a
  float in gigabytes, and every string whose conversion \<^verbatim>\<open>float\<close> rejects gives the
  unlimited sentinel. (The float need not be finite or non-negative, see below.)
\<close>

theorem parse_storage_value_total:
  "(\<exists>r. parse_storage_value s = Inr r)
   \<and> (\<exists>t. convert_storage_to_gb s True = Inr (Inl t))
   \<and> (\<exists>r. convert_storage_to_gb s False = Inr (Inr r))
   \<and> (isl (parse_storage_body (py_strip (py_upper s))) \<longrightarrow> parse_storage_value s = Inr None)"
  by (simp add: convert_storage_to_gb_def parse_storage_value_cases split: sum.splits)

theorem parse_storage_value_total_witness:
  "isl (parse_storage_body (py_strip (py_upper ''12xg'')))
   \<and> parse_storage_value ''12xg'' = Inr None
   \<and> (\<exists>t. convert_storage_to_gb ''12xg'' True = Inr (Inl t))"
proof -
  have rejected: "isl (parse_storage_body (py_strip (py_upper ''12xg'')))"
    by code_simp
  with parse_storage_value_total [of "''12xg''"] show ?thesis
    by simp
qed

text \<open>
  The claim as stated, that the value is finite and non-negative, fails: \<^verbatim>\<open>-5G\<close> is
  parsed to the negative value \<open>-5\<close> and \<^verbatim>\<open>NAN\<close> to NaN.
\<close>

theorem parse_storage_value_negative:
  "parse_storage_value ''-5G'' = Inr (Some (Finite (- 5)))
   \<and> parse_storage_value ''NAN'' = Inr (Some NaN)"
  by code_simp








lemma floor_numeral_div [simp]:
  "\<lfloor>(numeral a :: rat) / numeral b\<rfloor> = numeral a div numeral b"
  using floor_divide_of_int_eq [of "numeral a" "numeral b", where ?'a = rat] by simp

lemmas format_2f_eval =
  format_2f_def round_half_even_def str_of_nat_def digits_of_nat.simps Let_def


section \<open>Properties of formatting followed by parsing\<close>

text \<open>
  The characters \<open>format_2f\<close> prints for a number: a decimal digit is none of the
  characters the parser gives a meaning to, and neither \<^verbatim>\<open>upper\<close>, \<^verbatim>\<open>lower\<close> nor the
  two \<^verbatim>\<open>strip\<close>s change it.
\<close>

lemma digit_plain:
  assumes "is_digit c"
  shows "c \<noteq> CHR ''e''" "c \<noteq> CHR ''E''" "c \<noteq> CHR ''.''" "c \<noteq> CHR ''-''" "c \<noteq> CHR ''+''"
    "c \<noteq> CHR ''G''" "c \<noteq> CHR ''_''" "c \<noteq> CHR ''U''" "c \<noteq> CHR ''i''" "c \<noteq> CHR ''n''"
  using assms unfolding is_digit_def list.set by (elim insertE emptyE; simp)+

lemma digit_upper: "is_digit c \<Longrightarrow> py_upper_char c = c"
  unfolding is_digit_def list.set py_upper_char_def by (elim insertE emptyE) simp_all

lemma digit_lower: "is_digit c \<Longrightarrow> py_lower_char c = c"
  unfolding is_digit_def list.set py_lower_char_def by (elim insertE emptyE) simp_all

lemma digit_nospace: "is_digit c \<Longrightarrow> \<not> float_isspace c \<and> \<not> py_isspace c"
  unfolding is_digit_def list.set float_isspace_def py_isspace_def by (elim insertE emptyE) simp_all

text \<open>
  The decimal digits of a natural number are a digit part whose value is the number.
\<close>

lemma digit_table:
  assumes "k < 10"
  shows "is_digit (''0123456789'' ! k) \<and> digit_value (''0123456789'' ! k) = int k"
proof -
  have "\<forall>j < Suc (Suc (Suc (Suc (Suc (Suc (Suc (Suc (Suc (Suc 0))))))))).
          is_digit (''0123456789'' ! j) \<and> digit_value (''0123456789'' ! j) = int j"
    by (simp add: All_less_Suc is_digit_def digit_value_def)
  with assms show ?thesis by (simp add: eval_nat_numeral)
qed

lemma digits_of_nat_unfold:
  "digits_of_nat n =
     (if n < 10 then [''0123456789'' ! n]
      else digits_of_nat (n div 10) @ [''0123456789'' ! (n mod 10)])"
  by (rule digits_of_nat.simps)

lemma digits_of_nat_digits:
  "digits_of_nat n \<noteq> [] \<and> (\<forall>c \<in> set (digits_of_nat n). is_digit c)"
proof (induction n rule: digits_of_nat.induct)
  case (1 n)
  show ?case
  proof (cases "n < 10")
    case True
    then have "digits_of_nat n = [''0123456789'' ! n]" by (simp add: digits_of_nat_unfold [of n])
    with True digit_table [of n] show ?thesis by simp
  next
    case False
    then have e: "digits_of_nat n = digits_of_nat (n div 10) @ [''0123456789'' ! (n mod 10)]"
      by (simp add: digits_of_nat_unfold [of n])
    from 1 False have "\<forall>c \<in> set (digits_of_nat (n div 10)). is_digit c" by simp
    moreover have "is_digit (''0123456789'' ! (n mod 10))" using digit_table [of "n mod 10"] by simp
    ultimately show ?thesis unfolding e by simp
  qed
qed

lemma digits_value_snoc:
  assumes "is_digit c"
  shows "digits_value (ds @ [c]) = 10 * digits_value ds + digit_value c"
  using assms by (simp add: digits_value_def)

lemma digits_value_digits_of_nat: "digits_value (digits_of_nat n) = int n"
proof (induction n rule: digits_of_nat.induct)
  case (1 n)
  show ?case
  proof (cases "n < 10")
    case True
    then have e: "digits_of_nat n = [''0123456789'' ! n]" by (simp add: digits_of_nat_unfold [of n])
    from True digit_table [of n] show ?thesis unfolding e by (simp add: digits_value_def)
  next
    case False
    then have e: "digits_of_nat n = digits_of_nat (n div 10) @ [''0123456789'' ! (n mod 10)]"
      by (simp add: digits_of_nat_unfold [of n])
    have d: "is_digit (''0123456789'' ! (n mod 10))"
      "digit_value (''0123456789'' ! (n mod 10)) = int (n mod 10)"
      using digit_table [of "n mod 10"] by simp_all
    from 1 False have ih: "digits_value (digits_of_nat (n div 10)) = int (n div 10)" by simp
    have "digits_value (digits_of_nat n) = 10 * int (n div 10) + int (n mod 10)"
      unfolding e by (simp only: digits_value_snoc [OF d(1)] ih d(2))
    also have "\<dots> = int n" by presburger
    finally show ?thesis .
  qed
qed

lemma valid_digitpart_digits:
  assumes "ds \<noteq> []" "\<forall>c \<in> set ds. is_digit c"
  shows "valid_digitpart ds"
  using assms
proof (induction ds rule: valid_digitpart.induct)
  case 1
  then show ?case by simp
next
  case (2 c)
  then show ?case by simp
next
  case (3 c d cs)
  then have "d \<noteq> CHR ''_''" using digit_plain(7) [of d] by auto
  with 3 show ?case by simp
qed

lemma filter_digits: "\<forall>c \<in> set ds. is_digit c \<Longrightarrow> filter is_digit ds = ds"
  by (simp add: filter_id_conv)

lemma split_at_none:
  assumes "\<forall>c \<in> set s. \<not> P c"
  shows "split_at P s = (s, None)"
proof -
  from assms have t: "takeWhile (\<lambda>c. \<not> P c) s = s" by simp
  from assms have d: "dropWhile (\<lambda>c. \<not> P c) s = []" by simp
  show ?thesis unfolding split_at_def t d by simp
qed

lemma split_at_some:
  assumes "\<forall>c \<in> set a. \<not> P c" "P c"
  shows "split_at P (a @ c # b) = (a, Some b)"
proof -
  from assms have t: "takeWhile (\<lambda>c. \<not> P c) (a @ c # b) = a" by simp
  from assms have d: "dropWhile (\<lambda>c. \<not> P c) (a @ c # b) = c # b" by simp
  show ?thesis unfolding split_at_def t d by simp
qed

lemma strip_noop:
  assumes "s \<noteq> []" "\<not> P (hd s)" "\<not> P (last s)"
  shows "rev (dropWhile P (rev (dropWhile P s))) = s"
proof -
  from assms(1,2) have 1: "dropWhile P s = s" by (cases s) simp_all
  from assms(1) have "rev s \<noteq> []" by simp
  moreover from assms(1,3) have "\<not> P (hd (rev s))" by (simp add: hd_rev)
  ultimately have "dropWhile P (rev s) = rev s" by (cases "rev s") simp_all
  with 1 show ?thesis by simp
qed

lemma round_half_even_nonneg: "0 \<le> x \<Longrightarrow> 0 \<le> round_half_even x"
  by (auto simp: round_half_even_def Let_def)

lemma str_of_nat_digits:
  "str_of_nat a \<noteq> []" "\<forall>c \<in> set (str_of_nat a). is_digit c"
  "valid_digitpart (str_of_nat a)" "digits_value (str_of_nat a) = int a"
  using digits_of_nat_digits [of a] digits_value_digits_of_nat [of a]
  by (simp_all add: str_of_nat_def valid_digitpart_digits)

lemma two_digits:
  assumes "k1 < 10" "k2 < 10"
  shows "valid_digitpart [''0123456789'' ! k1, ''0123456789'' ! k2]"
    and "digits_value [''0123456789'' ! k1, ''0123456789'' ! k2] = int (10 * k1 + k2)"
    and "filter is_digit [''0123456789'' ! k1, ''0123456789'' ! k2]
           = [''0123456789'' ! k1, ''0123456789'' ! k2]"
proof -
  from digit_table [OF assms(1)] digit_table [OF assms(2)]
  have d: "is_digit (''0123456789'' ! k1)" "is_digit (''0123456789'' ! k2)"
    "digit_value (''0123456789'' ! k1) = int k1" "digit_value (''0123456789'' ! k2) = int k2"
    by simp_all
  show "valid_digitpart [''0123456789'' ! k1, ''0123456789'' ! k2]"
    by (rule valid_digitpart_digits) (simp_all add: d)
  show "digits_value [''0123456789'' ! k1, ''0123456789'' ! k2] = int (10 * k1 + k2)"
    using d by (simp add: digits_value_def)
  show "filter is_digit [''0123456789'' ! k1, ''0123456789'' ! k2]
           = [''0123456789'' ! k1, ''0123456789'' ! k2]"
    using d by simp
qed

lemma parse_mantissa_fixed:
  assumes "k1 < 10" "k2 < 10"
  shows "parse_mantissa (str_of_nat a @ CHR ''.'' # [''0123456789'' ! k1, ''0123456789'' ! k2])
           = Some (of_nat a + of_nat (10 * k1 + k2) / 100)"
proof -
  have nodot: "\<forall>c \<in> set (str_of_nat a). \<not> c = CHR ''.''"
    using str_of_nat_digits(2) [of a] digit_plain(3) by blast
  have sp: "split_at (\<lambda>c. c = CHR ''.'') (str_of_nat a @ CHR ''.'' # [''0123456789'' ! k1, ''0123456789'' ! k2])
      = (str_of_nat a, Some [''0123456789'' ! k1, ''0123456789'' ! k2])"
    by (rule split_at_some [OF nodot]) simp
  show ?thesis
    unfolding parse_mantissa_def sp
    using two_digits [OF assms] str_of_nat_digits [of a]
    by (simp del: valid_digitpart.simps filter.simps)
qed

lemma parse_number_fixed:
  assumes "k1 < 10" "k2 < 10"
  shows "parse_number (str_of_nat a @ CHR ''.'' # [''0123456789'' ! k1, ''0123456789'' ! k2])
           = Some (of_nat a + of_nat (10 * k1 + k2) / 100)"
proof -
  from digit_table [OF assms(1)] digit_table [OF assms(2)]
  have d: "is_digit (''0123456789'' ! k1)" "is_digit (''0123456789'' ! k2)" by simp_all
  have noexp: "\<forall>c \<in> set (str_of_nat a @ CHR ''.'' # [''0123456789'' ! k1, ''0123456789'' ! k2]).
      \<not> (c = CHR ''e'' \<or> c = CHR ''E'')"
    using str_of_nat_digits(2) [of a] d digit_plain(1,2) by auto
  show ?thesis
    unfolding parse_number_def split_at_none [OF noexp]
    by (simp add: parse_mantissa_fixed [OF assms] parse_exponent_def pow10_def)
qed

text \<open>
  \<^verbatim>\<open>float\<close> on digits, a point and two digits, with or without a minus sign.
\<close>

lemma digits_lower: "\<forall>c \<in> set ds. is_digit c \<Longrightarrow> map py_lower_char ds = ds"
  by (induction ds) (simp_all add: digit_lower)

lemma digits_upper: "\<forall>c \<in> set ds. is_digit c \<Longrightarrow> map py_upper_char ds = ds"
  by (induction ds) (simp_all add: digit_upper)

lemma plain_chars:
  "py_lower_char (CHR ''.'') = CHR ''.''" "py_upper_char (CHR ''.'') = CHR ''.''"
  "py_upper_char (CHR ''-'') = CHR ''-''" "py_upper_char (CHR ''G'') = CHR ''G''"
  "\<not> float_isspace (CHR ''-'')" "\<not> py_isspace (CHR ''-'')" "\<not> py_isspace (CHR ''G'')"
  by (simp_all add: py_lower_char_def py_upper_char_def float_isspace_def py_isspace_def)

lemma fixed_body:
  fixes a k1 k2 :: nat
  assumes "k1 < 10" "k2 < 10"
  defines "body \<equiv> str_of_nat a @ CHR ''.'' # [''0123456789'' ! k1, ''0123456789'' ! k2]"
  shows "\<exists>x xs. body = x # xs \<and> is_digit x"
    and "is_digit (last body)"
    and "py_lower body = body"
    and "py_upper body = body"
    and "CHR ''G'' \<notin> set body"
proof -
  define d1 where "d1 = ''0123456789'' ! k1"
  define d2 where "d2 = ''0123456789'' ! k2"
  have body: "body = str_of_nat a @ CHR ''.'' # [d1, d2]"
    by (simp only: body_def d1_def d2_def)
  from digit_table [OF assms(1)] digit_table [OF assms(2)]
  have d: "is_digit d1" "is_digit d2" by (simp_all only: d1_def d2_def)
  note s = str_of_nat_digits [of a]
  from s(1) obtain x xs where x: "str_of_nat a = x # xs" by (cases "str_of_nat a") simp_all
  with s(2) have "is_digit x" by simp
  with x show "\<exists>x xs. body = x # xs \<and> is_digit x" by (simp add: body)
  show "is_digit (last body)" using d(2) by (simp add: body)
  show "py_lower body = body"
    by (simp add: body py_lower_def digits_lower [OF s(2)] digit_lower [OF d(1)]
        digit_lower [OF d(2)] plain_chars(1))
  show "py_upper body = body"
    by (simp add: body py_upper_def digits_upper [OF s(2)] digit_upper [OF d(1)]
        digit_upper [OF d(2)] plain_chars(2))
  have "\<forall>c \<in> set (str_of_nat a). c \<noteq> CHR ''G''" using s(2) digit_plain(6) by blast
  then show "CHR ''G'' \<notin> set body"
    using digit_plain(6) [OF d(1)] digit_plain(6) [OF d(2)] by (auto simp: body)
qed

lemma py_float_body:
  assumes "k1 < 10" "k2 < 10"
  shows "py_float (str_of_nat a @ CHR ''.'' # [''0123456789'' ! k1, ''0123456789'' ! k2])
           = Inr (to_double (of_nat a + of_nat (10 * k1 + k2) / 100))"
proof -
  let ?body = "str_of_nat a @ CHR ''.'' # [''0123456789'' ! k1, ''0123456789'' ! k2]"
  note b = fixed_body [OF assms, of a]
  from b(1) obtain x xs where x: "?body = x # xs" "is_digit x" by blast
  have strip: "rev (dropWhile float_isspace (rev (dropWhile float_isspace ?body))) = ?body"
  proof (rule strip_noop)
    show "?body \<noteq> []" by simp
    show "\<not> float_isspace (hd ?body)" unfolding x(1) using x(2) by (simp add: digit_nospace)
    show "\<not> float_isspace (last ?body)" using b(2) by (simp add: digit_nospace)
  qed
  have ne: "?body \<noteq> ''inf''" "?body \<noteq> ''infinity''" "?body \<noteq> ''nan''"
    unfolding x(1) using digit_plain(9,10) [OF x(2)] by simp_all
  have hd: "(case ?body of c # rest \<Rightarrow> if c = CHR ''-'' then (True, rest)
                 else if c = CHR ''+'' then (False, rest) else (False, ?body)
               | [] \<Rightarrow> (False, ?body)) = (False, ?body)"
    unfolding x(1) using digit_plain(4,5) [OF x(2)] by simp
  show ?thesis
    unfolding py_float_def strip Let_def hd
    by (simp only: prod.case b(3) ne if_False simp_thms parse_number_fixed [OF assms] option.case)
qed

lemma py_float_minus_body:
  assumes "k1 < 10" "k2 < 10"
  shows "py_float (CHR ''-'' # str_of_nat a @ CHR ''.'' # [''0123456789'' ! k1, ''0123456789'' ! k2])
           = Inr (to_double (- (of_nat a + of_nat (10 * k1 + k2) / 100)))"
proof -
  let ?body = "str_of_nat a @ CHR ''.'' # [''0123456789'' ! k1, ''0123456789'' ! k2]"
  note b = fixed_body [OF assms, of a]
  from b(1) obtain x xs where x: "?body = x # xs" "is_digit x" by blast
  have strip: "rev (dropWhile float_isspace (rev (dropWhile float_isspace (CHR ''-'' # ?body))))
      = CHR ''-'' # ?body"
  proof (rule strip_noop)
    show "CHR ''-'' # ?body \<noteq> []" by simp
    show "\<not> float_isspace (hd (CHR ''-'' # ?body))" by (simp add: plain_chars)
    show "\<not> float_isspace (last (CHR ''-'' # ?body))" using b(2) by (simp add: digit_nospace)
  qed
  have ne: "?body \<noteq> ''inf''" "?body \<noteq> ''infinity''" "?body \<noteq> ''nan''"
    unfolding x(1) using digit_plain(9,10) [OF x(2)] by simp_all
  show ?thesis
    unfolding py_float_def strip Let_def
    by (simp only: list.case prod.case b(3) ne if_True if_False simp_thms
        parse_number_fixed [OF assms] option.case)
qed

text \<open>
  The text \<^verbatim>\<open>f"{gb_value:.2f}G"\<close> parses to the double nearest to the two-decimal
  number printed.
\<close>

lemma parse_storage_value_G:
  assumes t: "t = c # cs" and c: "c = CHR ''-'' \<or> is_digit c"
    and up: "py_upper t = t" and noG: "CHR ''G'' \<notin> set t" and fl: "py_float t = Inr v"
  shows "parse_storage_value (t @ ''G'') = Inr (Some v)"
proof -
  have upper: "py_upper (t @ ''G'') = t @ ''G''"
    using up by (simp add: py_upper_def plain_chars(4))
  have first: "\<not> py_isspace c" "c \<noteq> CHR ''U''"
    using c digit_nospace [of c] digit_plain(8) [of c] plain_chars(6) by auto
  have strip: "py_strip (t @ ''G'') = t @ ''G''"
    unfolding py_strip_def
  proof (rule strip_noop)
    show "t @ ''G'' \<noteq> []" by simp
    show "\<not> py_isspace (hd (t @ ''G''))" using first(1) by (simp add: t)
    show "\<not> py_isspace (last (t @ ''G''))" by (simp add: plain_chars(7))
  qed
  have ne: "t @ ''G'' \<noteq> ''UNLIMITED''" using first(2) by (simp add: t)
  have "filter (\<lambda>x. x \<noteq> CHR ''G'') t = t" using noG by (auto simp: filter_id_conv)
  then have body: "parse_storage_body (t @ ''G'') = Inr v"
    by (simp add: parse_storage_body_def py_remove_def fl)
  show ?thesis
    unfolding parse_storage_value_def upper strip Let_def
    using ne by (simp add: body)
qed

lemma two_decimals:
  fixes n :: nat
  shows "n mod 100 div 10 < 10" "n mod 10 < 10"
    "(of_nat (n div 100) :: rat) + of_nat (10 * (n mod 100 div 10) + n mod 10) / 100 = of_nat n / 100"
proof -
  show "n mod 100 div 10 < 10" by simp
  show "n mod 10 < 10" by simp
  have "n mod 100 mod 10 = n mod 10" by (simp add: mod_mod_cancel)
  then have "10 * (n mod 100 div 10) + n mod 10 = n mod 100"
    using mult_div_mod_eq [of 10 "n mod 100"] by simp
  then have "100 * (n div 100) + (10 * (n mod 100 div 10) + n mod 10) = n" by simp
  then have "(of_nat (100 * (n div 100) + (10 * (n mod 100 div 10) + n mod 10)) :: rat) = of_nat n"
    by (rule arg_cong)
  then have "(100 :: rat) * of_nat (n div 100) + of_nat (10 * (n mod 100 div 10) + n mod 10) = of_nat n"
    by (simp only: of_nat_add of_nat_mult of_nat_numeral)
  then show "(of_nat (n div 100) :: rat) + of_nat (10 * (n mod 100 div 10) + n mod 10) / 100 = of_nat n / 100"
    by (simp add: field_simps)
qed

lemma format_2f_shape:
  fixes q :: rat
  defines "n \<equiv> nat (round_half_even (\<bar>q\<bar> * 100))"
  shows "format_2f (Finite q) =
           (if q < 0 then ''-'' else []) @ str_of_nat (n div 100)
             @ CHR ''.'' # [''0123456789'' ! (n mod 100 div 10), ''0123456789'' ! (n mod 10)]"
    and "(of_nat n :: rat) / 100 = \<bar>round_2f q\<bar>"
    and "q < 0 \<Longrightarrow> round_2f q = - (of_nat n / 100)"
    and "\<not> q < 0 \<Longrightarrow> round_2f q = of_nat n / 100"
proof -
  have "0 \<le> round_half_even (\<bar>q\<bar> * 100)" by (rule round_half_even_nonneg) simp
  then have n: "(of_nat n :: rat) = of_int (round_half_even (\<bar>q\<bar> * 100))"
    by (simp add: n_def)
  show "format_2f (Finite q) =
           (if q < 0 then ''-'' else []) @ str_of_nat (n div 100)
             @ CHR ''.'' # [''0123456789'' ! (n mod 100 div 10), ''0123456789'' ! (n mod 10)]"
    by (simp only: format_2f_def pyfloat.case Let_def n_def append_Cons append_Nil)
  show "q < 0 \<Longrightarrow> round_2f q = - (of_nat n / 100)" by (simp add: round_2f_def n)
  show "\<not> q < 0 \<Longrightarrow> round_2f q = of_nat n / 100" by (simp add: round_2f_def n)
  show "(of_nat n :: rat) / 100 = \<bar>round_2f q\<bar>"
    using \<open>0 \<le> round_half_even (\<bar>q\<bar> * 100)\<close> by (simp add: round_2f_def n abs_mult)
qed

lemma py_float_format_2f: "py_float (format_2f (Finite q)) = Inr (to_double (round_2f q))"
proof -
  define n where "n = nat (round_half_even (\<bar>q\<bar> * 100))"
  note f = format_2f_shape [of q, folded n_def]
  note k = two_decimals [of n]
  show ?thesis
  proof (cases "q < 0")
    case True
    then show ?thesis
      by (simp only: f(1) f(3) [OF True] if_True append_Cons append_Nil py_float_minus_body [OF k(1,2)] k(3))
  next
    case False
    then show ?thesis
      by (simp only: f(1) f(4) [OF False] if_False append_Nil py_float_body [OF k(1,2)] k(3))
  qed
qed

lemma format_2f_text:
  "\<exists>c cs. format_2f (Finite q) = c # cs \<and> (c = CHR ''-'' \<or> is_digit c)"
  "py_upper (format_2f (Finite q)) = format_2f (Finite q)"
  "CHR ''G'' \<notin> set (format_2f (Finite q))"
proof -
  define n where "n = nat (round_half_even (\<bar>q\<bar> * 100))"
  note f = format_2f_shape [of q, folded n_def]
  note k = two_decimals [of n]
  note b = fixed_body [OF k(1,2), of "n div 100"]
  from b(1) obtain x xs where x:
    "str_of_nat (n div 100) @ CHR ''.'' # [''0123456789'' ! (n mod 100 div 10), ''0123456789'' ! (n mod 10)] = x # xs"
    "is_digit x" by blast
  show "\<exists>c cs. format_2f (Finite q) = c # cs \<and> (c = CHR ''-'' \<or> is_digit c)"
    unfolding f(1) x(1) using x(2) by (cases "q < 0") simp_all
  show "py_upper (format_2f (Finite q)) = format_2f (Finite q)"
    unfolding f(1) using b(4) by (cases "q < 0") (simp_all add: py_upper_def plain_chars(3))
  show "CHR ''G'' \<notin> set (format_2f (Finite q))"
    unfolding f(1) using b(5) by (cases "q < 0") simp_all
qed

lemma round_trip_finite:
  "parse_storage_value (format_storage_gb (Some (Finite q)) u) = Inr (Some (to_double (round_2f q)))"
proof -
  from format_2f_text(1) [of q] obtain c cs where t: "format_2f (Finite q) = c # cs"
    and c: "c = CHR ''-'' \<or> is_digit c" by blast
  show ?thesis
    unfolding format_storage_gb_def option.case
    by (rule parse_storage_value_G [OF t c format_2f_text(2) format_2f_text(3) py_float_format_2f])
qed

text \<open>
  The four unit rules of the parser on the examples of the specification.
\<close>

lemma parse_storage_value_units:
  "parse_storage_value ''50G'' = Inr (Some (Finite 50))"
  "parse_storage_value ''2048M'' = Inr (Some (Finite 2))"
  "parse_storage_value ''1T'' = Inr (Some (Finite 1024))"
  "parse_storage_value ''1073741824'' = Inr (Some (Finite 1))"
  "parse_storage_value ''unlimited'' = Inr None"
  by code_simp+

text \<open>
  Claim C6, amended. The unlimited sentinel is printed as \<^verbatim>\<open>UNLIMITED\<close>, which parses
  to the unlimited sentinel. A finite quantity \<open>q\<close> is printed with two decimals, so
  parsing the text gives the double nearest to \<open>q\<close> rounded to two decimals (ties to
  even), whatever \<open>q\<close> is; the result is \<open>q\<close> again exactly when \<open>q\<close> is such a double.
\<close>

theorem storage_round_trip:
  "parse_storage_value (format_storage_gb None ''UNLIMITED'') = Inr None
   \<and> parse_storage_value (format_storage_gb (Some (Finite q)) u)
       = Inr (Some (to_double (round_2f q)))
   \<and> ((parse_storage_value (format_storage_gb (Some (Finite q)) u) = Inr (Some (Finite q)))
        = (to_double (round_2f q) = Finite q))"
proof -
  have "parse_storage_value ''UNLIMITED'' = Inr None" by code_simp
  moreover have "format_storage_gb None ''UNLIMITED'' = ''UNLIMITED''"
    by (simp add: format_storage_gb_def)
  ultimately show ?thesis by (simp add: round_trip_finite)
qed

text \<open>
  A quantity of 50 gigabytes is printed as \<^verbatim>\<open>50.00G\<close> and parsed back to 50.
\<close>

theorem storage_round_trip_witness:
  "format_storage_gb (Some (Finite 50)) ''UNLIMITED'' = ''50.00G''
   \<and> parse_storage_value (format_storage_gb (Some (Finite 50)) ''UNLIMITED'') = Inr (Some (Finite 50))"
proof -
  have fmt: "format_2f (Finite 50) = ''50.00''" by (simp add: format_2f_eval)
  have r: "round_2f 50 = 50" by (simp add: round_2f_def round_half_even_def Let_def)
  have d: "to_double 50 = Finite 50" by code_simp
  from storage_round_trip [of 50 "''UNLIMITED''"] show ?thesis
    by (simp add: format_storage_gb_def fmt r d)
qed

text \<open>
  Claim C6 as stated fails. The double \<open>1/512\<close> (0.001953125 gigabytes, two
  mebibytes) is printed as \<^verbatim>\<open>0.00G\<close>, which parses to 0.
\<close>

theorem storage_round_trip_fails:
  "to_double (1 / 512) = Finite (1 / 512)
   \<and> format_storage_gb (Some (Finite (1 / 512))) ''UNLIMITED'' = ''0.00G''
   \<and> parse_storage_value (format_storage_gb (Some (Finite (1 / 512))) ''UNLIMITED'')
       = Inr (Some (Finite 0))
   \<and> parse_storage_value (format_storage_gb (Some (Finite (1 / 512))) ''UNLIMITED'')
       \<noteq> Inr (Some (Finite (1 / 512)))"
proof -
  have d: "to_double (1 / 512) = Finite (1 / 512)" by code_simp
  have fmt: "format_2f (Finite (1 / 512)) = ''0.00''" by (simp add: format_2f_eval)
  have p: "parse_storage_value ''0.00G'' = Inr (Some (Finite 0))" by code_simp
  show ?thesis by (simp add: d format_storage_gb_def fmt p)
qed

end
